theory Spec2Isabelle
  imports Complex_Main
begin

section \<open>JavaScript values and strings\<close>

text \<open>
  The front end is plain JavaScript. The values it reads from JSON payloads are
  modelled by the kinds the handlers meet: a missing property, null, a boolean,
  a non-negative integer and a string. \<open>JNum n\<close> stands for an integer that a
  JavaScript number holds exactly, at most 9007199254740991; in that range the
  conversion to a string prints the decimal digits. Two coercions of the language are used by
  the code: truthiness (the left operand of \<^verbatim>\<open>||\<close>, the condition of \<^verbatim>\<open>if\<close>)
  and conversion to a string (template literals, \<^verbatim>\<open>localStorage.setItem\<close>,
  \<^verbatim>\<open>textContent\<close>).
\<close>

datatype js_value = JUndefined | JNull | JBool bool | JNum nat | JStr string

fun js_truthy :: "js_value \<Rightarrow> bool" where
  "js_truthy JUndefined = False"
| "js_truthy JNull = False"
| "js_truthy (JBool b) = b"
| "js_truthy (JNum n) = (n \<noteq> 0)"
| "js_truthy (JStr s) = (s \<noteq> [])"

definition digit_char :: "nat \<Rightarrow> char" where
  "digit_char d = char_of (48 + d)"

fun decimal :: "nat \<Rightarrow> string" where
  "decimal n = (if n < 10 then [digit_char n] else decimal (n div 10) @ [digit_char (n mod 10)])"

declare decimal.simps [simp del]

fun js_toString :: "js_value \<Rightarrow> string" where
  "js_toString JUndefined = ''undefined''"
| "js_toString JNull = ''null''"
| "js_toString (JBool b) = (if b then ''true'' else ''false'')"
| "js_toString (JNum n) = decimal n"
| "js_toString (JStr s) = s"

text \<open>\<^verbatim>\<open>a || b\<close> on values, and on strings (where only the empty string is falsy).\<close>

definition js_or :: "js_value \<Rightarrow> js_value \<Rightarrow> js_value" where
  "js_or a b = (if js_truthy a then a else b)"

definition str_or :: "string \<Rightarrow> string \<Rightarrow> string" where
  "str_or a b = (if a \<noteq> [] then a else b)"

text \<open>\<^verbatim>\<open>Array.prototype.join\<close> on an array of strings.\<close>

fun join :: "string \<Rightarrow> string list \<Rightarrow> string" where
  "join sep [] = []"
| "join sep [x] = x"
| "join sep (x # y # ys) = x @ sep @ join sep (y # ys)"

text \<open>
  The characters of the strings that the search box compares. A JavaScript string is a
  sequence of UTF-16 code units; the model has the code units below 256 (the Latin-1
  range, one \<^typ>\<open>char\<close> each) and the three Greek sigmas, the one letter whose lower
  case depends on its neighbours. Characters beyond these are outside the model.
\<close>

datatype jchar = Latin1 char | CapitalSigma | SmallSigma | FinalSigma

text \<open>
  \<^verbatim>\<open>String.prototype.toLowerCase\<close> follows the Unicode default case conversion. In the
  Latin-1 range the capital letters are A to Z and U+00C0 to U+00DE without the
  multiplication sign U+00D7, each 32 below its small letter. A capital sigma becomes
  the final sigma when it is preceded by a cased letter and not followed by one,
  case-ignorable characters being skipped on both sides, and the small sigma otherwise.
\<close>

definition lower_latin1 :: "char \<Rightarrow> char" where
  "lower_latin1 c =
     (let n = (of_char c :: nat)
      in if (65 \<le> n \<and> n \<le> 90) \<or> (192 \<le> n \<and> n \<le> 214) \<or> (216 \<le> n \<and> n \<le> 222)
         then char_of (n + 32) else c)"

fun cased :: "jchar \<Rightarrow> bool" where
  "cased (Latin1 c) =
     (let n = (of_char c :: nat)
      in (65 \<le> n \<and> n \<le> 90) \<or> (97 \<le> n \<and> n \<le> 122) \<or> n = 170 \<or> n = 181 \<or> n = 186
         \<or> (192 \<le> n \<and> n \<le> 214) \<or> (216 \<le> n \<and> n \<le> 246) \<or> (248 \<le> n \<and> n \<le> 255))"
| "cased CapitalSigma = True"
| "cased SmallSigma = True"
| "cased FinalSigma = True"

fun case_ignorable :: "jchar \<Rightarrow> bool" where
  "case_ignorable (Latin1 c) =
     ((of_char c :: nat) \<in> {39, 46, 58, 94, 96, 168, 173, 175, 180, 183, 184})"
| "case_ignorable CapitalSigma = False"
| "case_ignorable SmallSigma = False"
| "case_ignorable FinalSigma = False"

text \<open>
  Whether the nearest character that is not case-ignorable is a cased letter; the
  argument lists the characters on one side, nearest first.
\<close>

fun cased_next :: "jchar list \<Rightarrow> bool" where
  "cased_next [] = False"
| "cased_next (c # cs) = (if case_ignorable c then cased_next cs else cased c)"

fun lower_from :: "jchar list \<Rightarrow> jchar list \<Rightarrow> jchar list" where
  "lower_from before [] = []"
| "lower_from before (c # rest) =
     (case c of
        Latin1 x \<Rightarrow> Latin1 (lower_latin1 x)
      | CapitalSigma \<Rightarrow> (if cased_next before \<and> \<not> cased_next rest then FinalSigma else SmallSigma)
      | SmallSigma \<Rightarrow> SmallSigma
      | FinalSigma \<Rightarrow> FinalSigma) # lower_from (c # before) rest"

definition toLowerCase :: "jchar list \<Rightarrow> jchar list" where
  "toLowerCase s = lower_from [] s"


text \<open>\<^verbatim>\<open>String.prototype.includes\<close>: the argument occurs at some position of the string.\<close>

fun startsWith :: "'a list \<Rightarrow> 'a list \<Rightarrow> bool" where
  "startsWith s [] = True"
| "startsWith [] (p # ps) = False"
| "startsWith (c # cs) (p # ps) = (c = p \<and> startsWith cs ps)"

fun js_includes :: "'a list \<Rightarrow> 'a list \<Rightarrow> bool" where
  "js_includes [] q = (q = [])"
| "js_includes (c # cs) q = (startsWith (c # cs) q \<or> js_includes cs q)"

section \<open>The page: persisted client state, document, effects\<close>

text \<open>
  Every script of the repository works on the same ambient browser state. It is made
  explicit as one record that each handler takes and returns:
  \<^item> \<open>localStorage\<close>: the persisted key/value store (\<^verbatim>\<open>getItem\<close> of an absent key
    is null, here \<open>None\<close>);
  \<^item> \<open>data_theme\<close>: the \<^verbatim>\<open>data-theme\<close> attribute of the document root;
  \<^item> \<open>href\<close>: \<^verbatim>\<open>window.location.href\<close>;
  \<^item> \<open>alerts\<close>: the notifications shown by \<^verbatim>\<open>showAlert(message, type)\<close>, oldest first;
  \<^item> \<open>timers\<close>: the callbacks scheduled by \<^verbatim>\<open>setTimeout\<close>, with their delay in
    milliseconds;
  \<^item> \<open>console_errors\<close>: the labels passed to \<^verbatim>\<open>console.error\<close>;
  \<^item> \<open>requests\<close>: the calls of \<^verbatim>\<open>fetch\<close>, oldest first;
  \<^item> \<open>downloads\<close>: the files offered through a clicked download link (name and blob);
  \<^item> \<open>selectedFile\<close>: the global of the analysis page;
  \<^item> the three style properties of the submit button that the form handlers switch;
  \<^item> \<open>recordsTable\<close>: the rows of the element with that id, \<open>None\<close> when the
    document has no such element;
  \<^item> \<open>resultsContainer\<close>: likewise for the results section of the analysis page.
\<close>

datatype timer = Navigate string | HideAlert

datatype form_entry = File string | Text string

datatype request_body = NoBody | Json "(string \<times> string) list" | FormData "(string \<times> form_entry) list"

record request =
  url :: string
  http_method :: string
  headers :: "(string \<times> string) list"
  body :: request_body

record analysis_record =
  record_id :: nat
  patient_name :: string
  patient_age :: nat
  patient_gender :: string
  disease :: string
  severity :: string
  confidence :: real
  timestamp :: string

datatype row_html = EmptyState string string | RecordCells analysis_record string

record tr_elem =
  innerHTML :: row_html
  display :: string
  cursor :: string
  onclick :: "nat option"

record analysis_data =
  analysis_id :: js_value
  result_disease :: string
  result_severity :: string
  result_confidence :: real
  affected_regions :: "string list"
  recommendations :: "string list"

datatype results_html = NoResults | Results analysis_data string

record page =
  localStorage :: "string \<rightharpoonup> string"
  data_theme :: "string option"
  href :: string
  alerts :: "(string \<times> string) list"
  timers :: "(nat \<times> timer) list"
  console_errors :: "string list"
  requests :: "request list"
  downloads :: "(string \<times> string) list"
  selectedFile :: "string option"
  submit_disabled :: bool
  btnText_display :: string
  btnLoader_display :: string
  recordsTable :: "tr_elem list option"
  resultsContainer :: "results_html option"

definition API_URL :: string where
  "API_URL = ''http://localhost:8000''"

text \<open>
  The outcome of one \<^verbatim>\<open>fetch\<close> as the handler sees it: the promise rejects
  (\<open>NetworkError\<close>), or it resolves to a response with its \<^verbatim>\<open>ok\<close> flag and the
  outcome of reading its body (\<^verbatim>\<open>response.json()\<close>, \<^verbatim>\<open>response.blob()\<close>), which
  rejects in turn when the body cannot be read (\<open>None\<close>).
\<close>

datatype 'a fetch_result = NetworkError | Response bool "'a option"

definition getItem :: "string \<Rightarrow> page \<Rightarrow> string option" where
  "getItem k st = localStorage st k"

definition setItem :: "string \<Rightarrow> string \<Rightarrow> page \<Rightarrow> page" where
  "setItem k v st = st\<lparr>localStorage := (localStorage st)(k \<mapsto> v)\<rparr>"

definition removeItem :: "string \<Rightarrow> page \<Rightarrow> page" where
  "removeItem k st = st\<lparr>localStorage := (localStorage st)(k := None)\<rparr>"

definition setTimeout :: "timer \<Rightarrow> nat \<Rightarrow> page \<Rightarrow> page" where
  "setTimeout f ms st = st\<lparr>timers := timers st @ [(ms, f)]\<rparr>"

definition console_error :: "string \<Rightarrow> page \<Rightarrow> page" where
  "console_error label st = st\<lparr>console_errors := console_errors st @ [label]\<rparr>"

definition fetch :: "request \<Rightarrow> page \<Rightarrow> page" where
  "fetch r st = st\<lparr>requests := requests st @ [r]\<rparr>"

text \<open>
  \<^verbatim>\<open>showAlert(message, type)\<close>: the message becomes visible (in the alert box of the
  login page, in a floating element elsewhere) and a timer of 5000 ms hides it again.
\<close>

definition showAlert :: "string \<Rightarrow> string \<Rightarrow> page \<Rightarrow> page" where
  "showAlert message type st =
     setTimeout HideAlert 5000 (st\<lparr>alerts := alerts st @ [(message, type)]\<rparr>)"


text \<open>The value sent in the Authorization header: a template literal over \<^verbatim>\<open>getItem("token")\<close>.\<close>

definition bearer :: "page \<Rightarrow> string" where
  "bearer st = ''Bearer '' @ (case getItem ''token'' st of None \<Rightarrow> ''null'' | Some t \<Rightarrow> t)"

section \<open>Theme controller\<close>

text \<open>\<^verbatim>\<open>initTheme\<close> and \<^verbatim>\<open>toggleTheme\<close>, the same text in every script.\<close>

definition initTheme :: "page \<Rightarrow> page" where
  "initTheme st =
     (let theme = str_or (case getItem ''theme'' st of None \<Rightarrow> [] | Some t \<Rightarrow> t) ''light''
      in st\<lparr>data_theme := Some theme\<rparr>)"

definition toggleTheme :: "page \<Rightarrow> page" where
  "toggleTheme st =
     (let current = data_theme st;
          next = (if current = Some ''light'' then ''dark'' else ''light'')
      in setItem ''theme'' next (st\<lparr>data_theme := Some next\<rparr>))"

section \<open>Session store: logout\<close>

definition handleLogout :: "page \<Rightarrow> page" where
  "handleLogout st =
     (removeItem ''doctorId'' (removeItem ''doctorName'' (removeItem ''token'' st)))
       \<lparr>href := ''index.html''\<rparr>"

section \<open>Session store: login\<close>

record login_form =
  email_value :: string
  password_value :: string

text \<open>
  The JSON object of the auth service's response, by the properties \<^verbatim>\<open>handleLogin\<close>
  reads; a property the object lacks reads as \<open>JUndefined\<close>.
\<close>

record login_data =
  access_token :: js_value
  doctor_name :: js_value
  doctor_id :: js_value
  detail :: js_value

definition loading :: "page \<Rightarrow> page" where
  "loading st = st\<lparr>submit_disabled := True, btnText_display := ''none'',
     btnLoader_display := ''inline-flex''\<rparr>"

definition loaded :: "page \<Rightarrow> page" where
  "loaded st = st\<lparr>submit_disabled := False, btnText_display := ''inline'',
     btnLoader_display := ''none''\<rparr>"

definition handleLogin :: "login_form \<Rightarrow> login_data fetch_result \<Rightarrow> page \<Rightarrow> page" where
  "handleLogin form res st =
     (let st1 = loading st;
          formData = [(''email'', email_value form), (''password'', password_value form)];
          st2 = fetch \<lparr>url = API_URL @ ''/api/auth/login'', http_method = ''POST'',
                  headers = [(''Content-Type'', ''application/json'')],
                  body = Json formData\<rparr> st1;
          caught = showAlert ''Network error. Please check your connection.'' ''error''
                     (console_error ''Login error:'' st2);
          st3 = (case res of
                   NetworkError \<Rightarrow> caught
                 | Response ok None \<Rightarrow> caught
                 | Response ok (Some data) \<Rightarrow>
                     if ok then
                       setTimeout (Navigate ''dashboard.html'') 1000
                         (showAlert ''Login successful! Redirecting...'' ''success''
                           (setItem ''doctorId'' (js_toString (doctor_id data))
                             (setItem ''doctorName'' (js_toString (doctor_name data))
                               (setItem ''token'' (js_toString (access_token data)) st2))))
                     else
                       showAlert
                         (js_toString (js_or (detail data)
                            (JStr ''Login failed. Please check your credentials.'')))
                         ''error'' st2)
      in loaded st3)"

section \<open>Upload and form controller\<close>

text \<open>
  The patient form as \<^verbatim>\<open>handleAnalyze\<close> reads it: the \<^verbatim>\<open>value\<close> of each named
  input, and the symptom checkboxes in document order, each with its value and whether
  it is checked.
\<close>

record patient_form =
  patient_name_value :: string
  patient_age_value :: string
  patient_gender_value :: string
  symptom_checkboxes :: "(string \<times> bool) list"
  medical_history_value :: string
  temperature_value :: string
  oxygen_saturation_value :: string
  heart_rate_value :: string
  respiratory_rate_value :: string

text \<open>\<^verbatim>\<open>FormData.append\<close>, and \<^verbatim>\<open>FormData.getAll\<close> and \<^verbatim>\<open>FormData.has\<close> to observe the result.\<close>

definition fd_append :: "string \<Rightarrow> form_entry \<Rightarrow> (string \<times> form_entry) list \<Rightarrow> (string \<times> form_entry) list" where
  "fd_append k v fd = fd @ [(k, v)]"

definition fd_getAll :: "string \<Rightarrow> (string \<times> form_entry) list \<Rightarrow> form_entry list" where
  "fd_getAll k fd = map snd (filter (\<lambda>e. fst e = k) fd)"

definition fd_has :: "string \<Rightarrow> (string \<times> form_entry) list \<Rightarrow> bool" where
  "fd_has k fd = (fd_getAll k fd \<noteq> [])"

definition checked_symptoms :: "patient_form \<Rightarrow> string list" where
  "checked_symptoms form = map fst (filter snd (symptom_checkboxes form))"

text \<open>The part of \<^verbatim>\<open>handleAnalyze\<close> that prepares the multipart body (lines 149 to 176).\<close>

definition prepare_formData :: "string \<Rightarrow> patient_form \<Rightarrow> (string \<times> form_entry) list" where
  "prepare_formData file form =
     (let fd1 = fd_append ''image'' (File file) [];
          fd2 = fd_append ''patient_name'' (Text (patient_name_value form)) fd1;
          fd3 = fd_append ''patient_age'' (Text (patient_age_value form)) fd2;
          fd4 = fd_append ''patient_gender'' (Text (patient_gender_value form)) fd3;
          symptoms = checked_symptoms form;
          fd5 = fd_append ''symptoms'' (Text (str_or (join '', '' symptoms) ''None reported'')) fd4;
          fd6 = fd_append ''medical_history'' (Text (str_or (medical_history_value form) [])) fd5;
          fd7 = (if temperature_value form \<noteq> []
                 then fd_append ''temperature'' (Text (temperature_value form)) fd6 else fd6);
          fd8 = (if oxygen_saturation_value form \<noteq> []
                 then fd_append ''oxygen_saturation'' (Text (oxygen_saturation_value form)) fd7 else fd7);
          fd9 = (if heart_rate_value form \<noteq> []
                 then fd_append ''heart_rate'' (Text (heart_rate_value form)) fd8 else fd8);
          fd10 = (if respiratory_rate_value form \<noteq> []
                 then fd_append ''respiratory_rate'' (Text (respiratory_rate_value form)) fd9 else fd9)
      in fd10)"

section \<open>Severity classes\<close>

text \<open>
  The conditional expressions that pick the class of a severity badge: \<^verbatim>\<open>severityClass\<close>
  in \<^verbatim>\<open>displayRecords\<close> (both copies), in \<^verbatim>\<open>displayRecentAnalyses\<close> and in the first
  \<^verbatim>\<open>showRecordModal\<close>; the expression inside the badge of the second
  \<^verbatim>\<open>showRecordModal\<close>; and \<^verbatim>\<open>severityColor\<close> of \<^verbatim>\<open>displayResults\<close>, which picks the
  colour of the severity text.
\<close>

definition severityClass :: "string \<Rightarrow> string" where
  "severityClass sev =
     (if sev = ''Severe'' then ''danger''
      else if sev = ''Moderate'' then ''warning''
      else if sev = ''Mild'' then ''success''
      else ''info'')"

definition displayRecentAnalyses_severityClass :: "string \<Rightarrow> string" where
  "displayRecentAnalyses_severityClass sev =
     (if sev = ''Severe'' then ''danger''
      else if sev = ''Moderate'' then ''warning''
      else if sev = ''Mild'' then ''success''
      else ''info'')"

definition showRecordModal_severityClass :: "string \<Rightarrow> string" where
  "showRecordModal_severityClass sev =
     (if sev = ''Severe'' then ''danger''
      else if sev = ''Moderate'' then ''warning''
      else if sev = ''Mild'' then ''success''
      else ''info'')"

definition showRecordModal_badge :: "string \<Rightarrow> string" where
  "showRecordModal_badge sev =
     (if sev = ''Severe'' then ''danger''
      else if sev = ''Moderate'' then ''warning''
      else ''success'')"

definition severityColor :: "string \<Rightarrow> string" where
  "severityColor sev =
     (if sev = ''Severe'' then ''var(--danger)''
      else if sev = ''Moderate'' then ''var(--warning)''
      else if sev = ''Mild'' then ''var(--secondary)''
      else ''var(--info)'')"

section \<open>Analysis result renderer and submission\<close>

definition displayResults :: "analysis_data \<Rightarrow> page \<Rightarrow> page" where
  "displayResults data st =
     (case resultsContainer st of
        None \<Rightarrow> st
      | Some old \<Rightarrow> st\<lparr>resultsContainer := Some (Results data (severityColor (result_severity data)))\<rparr>)"

text \<open>
  \<^verbatim>\<open>handleAnalyze\<close>. Without a selected file it only warns. Otherwise it sends the
  prepared body and handles the response: the body of a response is the analysis, and
  \<open>result_detail\<close> is what its \<^verbatim>\<open>detail\<close> property reads as.
\<close>

definition handleAnalyze :: "patient_form \<Rightarrow> (analysis_data \<times> js_value) fetch_result \<Rightarrow> page \<Rightarrow> page" where
  "handleAnalyze form res st =
     (case selectedFile st of
        None \<Rightarrow> showAlert ''Please upload an X-ray image first'' ''error'' st
      | Some file \<Rightarrow>
          (let st1 = loading st;
               formData = prepare_formData file form;
               st2 = fetch \<lparr>url = API_URL @ ''/api/analyze'', http_method = ''POST'',
                       headers = [(''Authorization'', bearer st1)],
                       body = FormData formData\<rparr> st1;
               caught = showAlert ''Network error. Please check your connection.'' ''error''
                          (console_error ''Analysis error:'' st2);
               st3 = (case res of
                        NetworkError \<Rightarrow> caught
                      | Response ok None \<Rightarrow> caught
                      | Response ok (Some (data, result_detail)) \<Rightarrow>
                          if ok then
                            showAlert ''Analysis completed successfully!'' ''success''
                              (displayResults data st2)
                          else
                            showAlert
                              (js_toString (js_or result_detail
                                 (JStr ''Analysis failed. Please try again.'')))
                              ''error'' st2)
           in loaded st3))"

section \<open>Records browser\<close>

definition empty_state_row :: tr_elem where
  "empty_state_row =
     \<lparr>innerHTML = EmptyState ''No records found'' ''Start analyzing X-rays to see records here'',
      display = [], cursor = [], onclick = None\<rparr>"

definition record_row :: "analysis_record \<Rightarrow> tr_elem" where
  "record_row r =
     \<lparr>innerHTML = RecordCells r (severityClass (severity r)),
      display = [], cursor = ''pointer'', onclick = Some (record_id r)\<rparr>"

text \<open>
  \<^verbatim>\<open>displayRecords\<close>: the table body is cleared; an empty list gives the row with the
  message; otherwise the loop appends one row per record.
\<close>

definition displayRecords :: "analysis_record list \<Rightarrow> page \<Rightarrow> page" where
  "displayRecords records st =
     (case recordsTable st of
        None \<Rightarrow> st
      | Some old \<Rightarrow>
          if length records = 0 then st\<lparr>recordsTable := Some [empty_state_row]\<rparr>
          else st\<lparr>recordsTable := Some (foldl (\<lambda>tbody r. tbody @ [record_row r]) [] records)\<rparr>)"

definition getAuthHeaders :: "page \<Rightarrow> (string \<times> string) list" where
  "getAuthHeaders st = [(''Authorization'', bearer st), (''Content-Type'', ''application/json'')]"

text \<open>
  \<^verbatim>\<open>loadAllRecords\<close>. The body of the response is the array \<^verbatim>\<open>data.records\<close>;
  \<open>None\<close> stands for a body on which \<^verbatim>\<open>response.json()\<close> rejects. A response that
  is not ok is ignored.
\<close>

definition loadAllRecords :: "analysis_record list fetch_result \<Rightarrow> page \<Rightarrow> page" where
  "loadAllRecords res st =
     (let st1 = fetch \<lparr>url = API_URL @ ''/api/records'', http_method = ''GET'',
                   headers = getAuthHeaders st, body = NoBody\<rparr> st;
          caught = showAlert ''Failed to load records'' ''error''
                     (console_error ''Error loading records:'' st1)
      in case res of
           NetworkError \<Rightarrow> caught
         | Response ok b \<Rightarrow>
             if ok then (case b of None \<Rightarrow> caught | Some records \<Rightarrow> displayRecords records st1)
             else st1)"

text \<open>
  The listener that \<^verbatim>\<open>setupSearch\<close> installs for the \<^verbatim>\<open>input\<close> event of the search
  box, applied to the value of the box. \<open>textContent\<close> is the text the document
  reports for the markup of a row.
\<close>

definition search_input :: "(row_html \<Rightarrow> jchar list) \<Rightarrow> jchar list \<Rightarrow> page \<Rightarrow> page" where
  "search_input textContent v st =
     (let searchTerm = toLowerCase v in
      case recordsTable st of
        None \<Rightarrow> st
      | Some rows \<Rightarrow>
          st\<lparr>recordsTable := Some (map (\<lambda>row. row\<lparr>display :=
              (if js_includes (toLowerCase (textContent (innerHTML row))) searchTerm
               then [] else ''none'')\<rparr>) rows)\<rparr>)"


section \<open>Report export\<close>

text \<open>\<^verbatim>\<open>downloadReport\<close>, the same text in the analysis page and the records page.\<close>

definition downloadReport :: "js_value \<Rightarrow> string fetch_result \<Rightarrow> page \<Rightarrow> page" where
  "downloadReport analysisId res st =
     (let st1 = fetch \<lparr>url = API_URL @ ''/api/download/report/'' @ js_toString analysisId,
                   http_method = ''GET'', headers = [(''Authorization'', bearer st)],
                   body = NoBody\<rparr> st;
          caught = showAlert ''Failed to download report'' ''error''
                     (console_error ''Download error:'' st1)
      in case res of
           NetworkError \<Rightarrow> caught
         | Response ok b \<Rightarrow>
             if ok then
               (case b of
                  None \<Rightarrow> caught
                | Some blob \<Rightarrow>
                    showAlert ''Report downloaded successfully!'' ''success''
                      (st1\<lparr>downloads := downloads st1 @
                         [(''medical_report_'' @ js_toString analysisId @ ''.pdf'', blob)]\<rparr>))
             else showAlert ''Failed to download report'' ''error'' st1)"

section \<open>Reading the specification\<close>





fun is_ascii :: "jchar \<Rightarrow> bool" where
  "is_ascii (Latin1 c) = ((of_char c :: nat) < 128)"
| "is_ascii CapitalSigma = False"
| "is_ascii SmallSigma = False"
| "is_ascii FinalSigma = False"

definition ascii_only :: "jchar list \<Rightarrow> bool" where
  "ascii_only s = list_all is_ascii s"


text \<open>
  The decimal numeral of a number, read from the left: a non-empty string of the digits
  0 to 9 without a leading zero (the numeral of zero apart) whose value is the number.
\<close>

definition digit_of :: "char \<Rightarrow> nat option" where
  "digit_of c = map_of (zip ''0123456789'' [0, 1, 2, 3, 4, 5, 6, 7, 8, 9]) c"

fun numeral_value :: "nat \<Rightarrow> string \<Rightarrow> nat option" where
  "numeral_value acc [] = Some acc"
| "numeral_value acc (c # cs) =
     (case digit_of c of None \<Rightarrow> None | Some d \<Rightarrow> numeral_value (10 * acc + d) cs)"

definition decimal_numeral :: "string \<Rightarrow> nat \<Rightarrow> bool" where
  "decimal_numeral s n =
     (s \<noteq> [] \<and> (s = ''0'' \<or> hd s \<noteq> CHR ''0'') \<and> numeral_value 0 s = Some n)"

section \<open>Concrete pages and inputs\<close>

definition fresh_page :: page where
  "fresh_page = \<lparr>localStorage = Map.empty, data_theme = None, href = ''index.html'',
     alerts = [], timers = [], console_errors = [], requests = [], downloads = [],
     selectedFile = None, submit_disabled = False, btnText_display = ''inline'',
     btnLoader_display = ''none'', recordsTable = None, resultsContainer = None\<rparr>"

definition dark_page :: page where
  "dark_page = setItem ''theme'' ''dark'' fresh_page"

definition upload_page :: page where
  "upload_page = fresh_page\<lparr>selectedFile := Some ''xray.png''\<rparr>"

definition jane :: analysis_record where
  "jane = \<lparr>record_id = 1, patient_name = ''Jane Doe'', patient_age = 34,
     patient_gender = ''Female'', disease = ''Pneumonia'', severity = ''Moderate'',
     confidence = 93.5, timestamp = ''2024-03-01T10:00:00''\<rparr>"

definition john :: analysis_record where
  "john = \<lparr>record_id = 2, patient_name = ''John Smith'', patient_age = 51,
     patient_gender = ''Male'', disease = ''Normal'', severity = ''Mild'',
     confidence = 88, timestamp = ''2024-03-02T09:30:00''\<rparr>"

definition records_page :: page where
  "records_page = fresh_page\<lparr>recordsTable := Some [record_row jane, record_row john]\<rparr>"

text \<open>
  Text functions for the examples: the patient's name of a record row (the message of
  the empty-state row), and a document that reports the text of every row as a
  capital A followed by a capital sigma.
\<close>

fun name_text :: "row_html \<Rightarrow> jchar list" where
  "name_text (EmptyState a b) = map Latin1 a"
| "name_text (RecordCells r c) = map Latin1 (patient_name r)"



definition token_page :: page where
  "token_page = setItem ''token'' ''tok123'' fresh_page"

definition example_form :: patient_form where
  "example_form = \<lparr>patient_name_value = ''Jane Doe'', patient_age_value = ''34'',
     patient_gender_value = ''Female'',
     symptom_checkboxes = [(''Cough'', True), (''Fever'', False), (''Chest Pain'', True)],
     medical_history_value = [], temperature_value = ''38.5'', oxygen_saturation_value = [],
     heart_rate_value = ''90'', respiratory_rate_value = []\<rparr>"

definition empty_value_form :: patient_form where
  "empty_value_form = example_form\<lparr>symptom_checkboxes := [([], True)]\<rparr>"

section \<open>Auxiliary facts\<close>

lemmas effect_defs = loaded_def loading_def fetch_def showAlert_def
  setTimeout_def setItem_def console_error_def

lemma decimal_42: "decimal 42 = ''42''"
  by code_simp













lemma ascii_only_append [simp]: "ascii_only (a @ b) \<longleftrightarrow> ascii_only a \<and> ascii_only b"
  by (simp add: ascii_only_def)


lemma digit_char_digit: "d < 10 \<Longrightarrow> digit_of (digit_char d) = Some d"
proof -
  have "list_all (\<lambda>d. digit_of (digit_char d) = Some d) [0..<10]"
    by code_simp
  then show "d < 10 \<Longrightarrow> digit_of (digit_char d) = Some d"
    by (simp add: list_all_iff)
qed

lemma digit_char_zero: "d < 10 \<Longrightarrow> digit_char d = CHR ''0'' \<longleftrightarrow> d = 0"
proof -
  have "list_all (\<lambda>d. digit_char d = CHR ''0'' \<longleftrightarrow> d = 0) [0..<10]"
    by code_simp
  then show "d < 10 \<Longrightarrow> digit_char d = CHR ''0'' \<longleftrightarrow> d = 0"
    by (simp add: list_all_iff)
qed

lemma numeral_value_snoc:
  "numeral_value acc (s @ [c]) =
     (case numeral_value acc s of None \<Rightarrow> None
      | Some v \<Rightarrow> (case digit_of c of None \<Rightarrow> None | Some d \<Rightarrow> Some (10 * v + d)))"
  by (induction s arbitrary: acc) (auto split: option.splits)

lemma decimal_is_numeral: "decimal_numeral (decimal n) n"
proof (induction n rule: decimal.induct)
  case (1 n)
  show ?case
  proof (cases "n < 10")
    case True
    then have d: "decimal n = [digit_char n]" by (simp add: decimal.simps)
    have "digit_char 0 = CHR ''0''" by code_simp
    with True show ?thesis
      by (auto simp: d decimal_numeral_def digit_char_digit digit_char_zero)
  next
    case False
    let ?s = "decimal (n div 10)"
    from False have d: "decimal n = ?s @ [digit_char (n mod 10)]"
      by (subst decimal.simps) simp
    from False "1.IH" have ih: "decimal_numeral ?s (n div 10)" by simp
    then have ne: "?s \<noteq> []" and v: "numeral_value 0 ?s = Some (n div 10)"
      and z: "?s = ''0'' \<or> hd ?s \<noteq> CHR ''0''"
      by (simp_all add: decimal_numeral_def)
    have "?s \<noteq> ''0''"
    proof
      assume "?s = ''0''"
      then have "numeral_value 0 ?s = Some 0" by (simp add: digit_of_def)
      with v have "n div 10 = 0" by simp
      with False show False by simp
    qed
    with z have h: "hd ?s \<noteq> CHR ''0''" by simp
    have "numeral_value 0 (decimal n) = Some n"
      by (simp add: d numeral_value_snoc v digit_char_digit)
    moreover have "hd (decimal n) \<noteq> CHR ''0''"
      using ne h by (simp add: d)
    ultimately show ?thesis
      by (simp add: decimal_numeral_def d)
  qed
qed


lemma jane_matches:
  "js_includes (toLowerCase (map Latin1 ''Jane Doe'')) (toLowerCase (map Latin1 ''jane''))"
  by code_simp

lemma john_does_not_match:
  "\<not> js_includes (toLowerCase (map Latin1 ''John Smith'')) (toLowerCase (map Latin1 ''jane''))"
  by code_simp



lemma toggleTheme_twice:
  "data_theme st = Some t \<Longrightarrow> localStorage st ''theme'' = Some t \<Longrightarrow> t = ''light'' \<or> t = ''dark''
   \<Longrightarrow> toggleTheme (toggleTheme st) = st"
  by (auto simp: toggleTheme_def setItem_def Let_def fun_upd_idem)

lemma initTheme_persisted:
  "getItem ''theme'' st = Some t \<Longrightarrow> t \<noteq> [] \<Longrightarrow>
   data_theme (initTheme st) = Some t \<and> localStorage (initTheme st) = localStorage st"
  by (simp add: initTheme_def str_or_def Let_def)

lemma handleLogin_other_keys:
  "k \<noteq> ''token'' \<Longrightarrow> k \<noteq> ''doctorName'' \<Longrightarrow> k \<noteq> ''doctorId'' \<Longrightarrow>
   localStorage (handleLogin form res st) k = localStorage st k"
  by (simp add: handleLogin_def Let_def effect_defs split: fetch_result.splits option.splits)

lemma foldl_snoc_map: "foldl (\<lambda>tbody r. tbody @ [f r]) acc xs = acc @ map f xs"
  by (induction xs arbitrary: acc) simp_all

lemma displayRecords_rows:
  "recordsTable st = Some old \<Longrightarrow>
   displayRecords recs st =
     st\<lparr>recordsTable := Some (if recs = [] then [empty_state_row] else map record_row recs)\<rparr>"
  by (simp add: displayRecords_def foldl_snoc_map)

lemma handleAnalyze_requests:
  "selectedFile st = Some file \<Longrightarrow>
   requests (handleAnalyze form res st) =
     requests st @ [\<lparr>url = API_URL @ ''/api/analyze'', http_method = ''POST'',
                     headers = [(''Authorization'', bearer st)],
                     body = FormData (prepare_formData file form)\<rparr>]"
  by (simp add: handleAnalyze_def Let_def effect_defs displayResults_def bearer_def getItem_def
      split: fetch_result.splits option.splits prod.splits)

lemma getAll_append [simp]:
  "fd_getAll k (fd_append k' v fd) = fd_getAll k fd @ (if k' = k then [v] else [])"
  by (simp add: fd_getAll_def fd_append_def)

lemma getAll_Nil [simp]: "fd_getAll k [] = []"
  by (simp add: fd_getAll_def)

lemma vital_entries:
  "fd_getAll ''temperature'' (prepare_formData file form) =
     (if temperature_value form = [] then [] else [Text (temperature_value form)])"
  "fd_getAll ''oxygen_saturation'' (prepare_formData file form) =
     (if oxygen_saturation_value form = [] then [] else [Text (oxygen_saturation_value form)])"
  "fd_getAll ''heart_rate'' (prepare_formData file form) =
     (if heart_rate_value form = [] then [] else [Text (heart_rate_value form)])"
  "fd_getAll ''respiratory_rate'' (prepare_formData file form) =
     (if respiratory_rate_value form = [] then [] else [Text (respiratory_rate_value form)])"
  by (simp_all add: prepare_formData_def Let_def)

lemma symptoms_entry:
  "fd_getAll ''symptoms'' (prepare_formData file form) =
     [Text (str_or (join '', '' (checked_symptoms form)) ''None reported'')]"
  by (simp add: prepare_formData_def Let_def)

lemma history_entry:
  "fd_getAll ''medical_history'' (prepare_formData file form) = [Text (medical_history_value form)]"
  by (simp add: prepare_formData_def Let_def str_or_def)

lemma join_empty_iff: "join '', '' xs = [] \<longleftrightarrow> xs = [] \<or> xs = [[]]"
  by (induction "'', ''" xs rule: join.induct) auto

text \<open>The body prepared for the example form: the blank fields leave no entry.\<close>

lemma example_formData:
  "prepare_formData ''xray.png'' example_form =
     [(''image'', File ''xray.png''), (''patient_name'', Text ''Jane Doe''),
      (''patient_age'', Text ''34''), (''patient_gender'', Text ''Female''),
      (''symptoms'', Text ''Cough, Chest Pain''), (''medical_history'', Text []),
      (''temperature'', Text ''38.5''), (''heart_rate'', Text ''90'')]"
  by (simp add: prepare_formData_def example_form_def checked_symptoms_def fd_append_def
      str_or_def Let_def)

section \<open>Claims\<close>

subsection \<open>Severity badges\<close>

text \<open>
  C1. The claim: every place that renders a severity badge maps Severe to danger,
  Moderate to warning, Mild to success and anything else to info. The table rows, the
  dashboard rows and the first \<^verbatim>\<open>showRecordModal\<close> do; the badge of the second
  \<^verbatim>\<open>showRecordModal\<close> has no fallback branch, and a severity outside the three names
  gets the class of Mild there. Evaluated at the severity \<^verbatim>\<open>Critical\<close>.
\<close>

theorem showRecordModal_badge_other_severity:
  "showRecordModal_badge ''Critical'' = ''success''
   \<and> showRecordModal_severityClass ''Critical'' = ''info''
   \<and> severityClass ''Critical'' = ''info''
   \<and> displayRecentAnalyses_severityClass ''Critical'' = ''info''"
  by (simp add: showRecordModal_badge_def showRecordModal_severityClass_def severityClass_def
      displayRecentAnalyses_severityClass_def)

subsection \<open>The multipart body of an analysis submission\<close>

text \<open>
  C2. For every submission (a file is selected, so a request is sent), each of the
  four vital-sign fields whose form value is blank (the empty string) has no entry in
  the multipart body of the request, and each field with a non-blank value has exactly
  one entry, carrying that value.
\<close>

theorem vital_signs_sent_iff_nonblank:
  assumes "selectedFile st = Some file"
  shows "\<exists>fd. requests (handleAnalyze form res st) =
                requests st @ [\<lparr>url = API_URL @ ''/api/analyze'', http_method = ''POST'',
                                headers = [(''Authorization'', bearer st)], body = FormData fd\<rparr>]
           \<and> (if temperature_value form = [] then \<not> fd_has ''temperature'' fd
               else fd_getAll ''temperature'' fd = [Text (temperature_value form)])
           \<and> (if oxygen_saturation_value form = [] then \<not> fd_has ''oxygen_saturation'' fd
               else fd_getAll ''oxygen_saturation'' fd = [Text (oxygen_saturation_value form)])
           \<and> (if heart_rate_value form = [] then \<not> fd_has ''heart_rate'' fd
               else fd_getAll ''heart_rate'' fd = [Text (heart_rate_value form)])
           \<and> (if respiratory_rate_value form = [] then \<not> fd_has ''respiratory_rate'' fd
               else fd_getAll ''respiratory_rate'' fd = [Text (respiratory_rate_value form)])"
proof -
  let ?fd = "prepare_formData file form"
  have r: "requests (handleAnalyze form res st) =
             requests st @ [\<lparr>url = API_URL @ ''/api/analyze'', http_method = ''POST'',
                             headers = [(''Authorization'', bearer st)], body = FormData ?fd\<rparr>]"
    by (rule handleAnalyze_requests [OF assms])
  have t: "if temperature_value form = [] then \<not> fd_has ''temperature'' ?fd
           else fd_getAll ''temperature'' ?fd = [Text (temperature_value form)]"
    by (simp add: fd_has_def vital_entries)
  have ox: "if oxygen_saturation_value form = [] then \<not> fd_has ''oxygen_saturation'' ?fd
           else fd_getAll ''oxygen_saturation'' ?fd = [Text (oxygen_saturation_value form)]"
    by (simp add: fd_has_def vital_entries)
  have h: "if heart_rate_value form = [] then \<not> fd_has ''heart_rate'' ?fd
           else fd_getAll ''heart_rate'' ?fd = [Text (heart_rate_value form)]"
    by (simp add: fd_has_def vital_entries)
  have rr: "if respiratory_rate_value form = [] then \<not> fd_has ''respiratory_rate'' ?fd
           else fd_getAll ''respiratory_rate'' ?fd = [Text (respiratory_rate_value form)]"
    by (simp add: fd_has_def vital_entries)
  from r t ox h rr show ?thesis by blast
qed

theorem vital_signs_sent_iff_nonblank_witness:
  "selectedFile upload_page = Some ''xray.png''
   \<and> (\<exists>fd. requests (handleAnalyze example_form NetworkError upload_page) =
              [\<lparr>url = API_URL @ ''/api/analyze'', http_method = ''POST'',
                headers = [(''Authorization'', ''Bearer null'')], body = FormData fd\<rparr>]
         \<and> fd_getAll ''temperature'' fd = [Text ''38.5'']
         \<and> \<not> fd_has ''oxygen_saturation'' fd
         \<and> fd_getAll ''heart_rate'' fd = [Text ''90'']
         \<and> \<not> fd_has ''respiratory_rate'' fd)"
proof -
  have f: "selectedFile upload_page = Some ''xray.png''"
    by (simp add: upload_page_def)
  have b: "bearer upload_page = ''Bearer null''"
    by (simp add: bearer_def getItem_def upload_page_def fresh_page_def)
  have q: "requests upload_page = []"
    by (simp add: upload_page_def fresh_page_def)
  show ?thesis
    using f vital_signs_sent_iff_nonblank [OF f, of example_form NetworkError]
    by (simp add: b q example_form_def)
qed

text \<open>
  C3, as amended. The symptoms entry of the request is the checked values joined by
  a comma and a space, except when that joined string is empty, where it is the text
  \<^verbatim>\<open>None reported\<close>. The joined string is empty when nothing is checked, and also when
  the only checked box has the empty string as its value.
\<close>

theorem symptoms_joined_or_none_reported:
  assumes "selectedFile st = Some file"
  shows "\<exists>fd. requests (handleAnalyze form res st) =
                requests st @ [\<lparr>url = API_URL @ ''/api/analyze'', http_method = ''POST'',
                                headers = [(''Authorization'', bearer st)], body = FormData fd\<rparr>]
           \<and> fd_getAll ''symptoms'' fd =
               [Text (if checked_symptoms form = [] \<or> checked_symptoms form = [[]]
                      then ''None reported''
                      else join '', '' (checked_symptoms form))]"
proof -
  let ?fd = "prepare_formData file form"
  have r: "requests (handleAnalyze form res st) =
             requests st @ [\<lparr>url = API_URL @ ''/api/analyze'', http_method = ''POST'',
                             headers = [(''Authorization'', bearer st)], body = FormData ?fd\<rparr>]"
    by (rule handleAnalyze_requests [OF assms])
  have s: "fd_getAll ''symptoms'' ?fd =
             [Text (if checked_symptoms form = [] \<or> checked_symptoms form = [[]]
                    then ''None reported''
                    else join '', '' (checked_symptoms form))]"
    using join_empty_iff [of "checked_symptoms form"]
    by (simp add: symptoms_entry str_or_def)
  from r s show ?thesis by blast
qed

theorem symptoms_joined_or_none_reported_witness:
  "selectedFile upload_page = Some ''xray.png''
   \<and> (\<exists>fd. requests (handleAnalyze example_form NetworkError upload_page) =
              [\<lparr>url = API_URL @ ''/api/analyze'', http_method = ''POST'',
                headers = [(''Authorization'', ''Bearer null'')], body = FormData fd\<rparr>]
         \<and> fd_getAll ''symptoms'' fd = [Text ''Cough, Chest Pain''])"
proof -
  have f: "selectedFile upload_page = Some ''xray.png''"
    by (simp add: upload_page_def)
  have b: "bearer upload_page = ''Bearer null''"
    by (simp add: bearer_def getItem_def upload_page_def fresh_page_def)
  have q: "requests upload_page = []"
    by (simp add: upload_page_def fresh_page_def)
  show ?thesis
    using f symptoms_joined_or_none_reported [OF f, of example_form NetworkError]
    by (simp add: b q example_form_def checked_symptoms_def)
qed

text \<open>
  C3 as stated fails where the only checked box has the empty string as its value: the
  checked set is not empty, the joined string is empty, and the entry sent is
  \<^verbatim>\<open>None reported\<close>.
\<close>

theorem symptoms_lone_empty_value_counterexample:
  "checked_symptoms empty_value_form \<noteq> []
   \<and> fd_getAll ''symptoms'' (prepare_formData ''xray.png'' empty_value_form)
       \<noteq> [Text (join '', '' (checked_symptoms empty_value_form))]
   \<and> fd_getAll ''symptoms'' (prepare_formData ''xray.png'' empty_value_form)
       = [Text ''None reported'']"
  by (simp add: symptoms_entry str_or_def checked_symptoms_def empty_value_form_def
      example_form_def)

text \<open>
  C4, as amended. Every submission carries exactly one medical_history entry, whose
  value is the form's medical-history value: the empty string when the field is empty.
\<close>

theorem medical_history_always_sent:
  assumes "selectedFile st = Some file"
  shows "\<exists>fd. requests (handleAnalyze form res st) =
                requests st @ [\<lparr>url = API_URL @ ''/api/analyze'', http_method = ''POST'',
                                headers = [(''Authorization'', bearer st)], body = FormData fd\<rparr>]
           \<and> fd_getAll ''medical_history'' fd = [Text (medical_history_value form)]"
proof -
  let ?fd = "prepare_formData file form"
  have r: "requests (handleAnalyze form res st) =
             requests st @ [\<lparr>url = API_URL @ ''/api/analyze'', http_method = ''POST'',
                             headers = [(''Authorization'', bearer st)], body = FormData ?fd\<rparr>]"
    by (rule handleAnalyze_requests [OF assms])
  have m: "fd_getAll ''medical_history'' ?fd = [Text (medical_history_value form)]"
    by (rule history_entry)
  from r m show ?thesis by blast
qed

theorem medical_history_always_sent_witness:
  "selectedFile upload_page = Some ''xray.png''
   \<and> (\<exists>fd. requests (handleAnalyze example_form NetworkError upload_page) =
              [\<lparr>url = API_URL @ ''/api/analyze'', http_method = ''POST'',
                headers = [(''Authorization'', ''Bearer null'')], body = FormData fd\<rparr>]
         \<and> fd_getAll ''medical_history'' fd = [Text []])"
proof -
  have f: "selectedFile upload_page = Some ''xray.png''"
    by (simp add: upload_page_def)
  have b: "bearer upload_page = ''Bearer null''"
    by (simp add: bearer_def getItem_def upload_page_def fresh_page_def)
  have q: "requests upload_page = []"
    by (simp add: upload_page_def fresh_page_def)
  show ?thesis
    using f medical_history_always_sent [OF f, of example_form NetworkError]
    by (simp add: b q example_form_def)
qed

text \<open>
  C4 as stated fails on a form whose medical-history field is empty: the body has a
  medical_history key, with the empty string as its value.
\<close>

theorem medical_history_empty_counterexample:
  "medical_history_value example_form = []
   \<and> fd_has ''medical_history'' (prepare_formData ''xray.png'' example_form)
   \<and> fd_getAll ''medical_history'' (prepare_formData ''xray.png'' example_form) = [Text []]"
  by (simp add: fd_has_def history_entry example_form_def)

subsection \<open>Login\<close>


text \<open>
  Two attempts on a fresh page: an accepted one, whose token, name and id end up in the
  store, and a rejected one, whose detail is shown and which stores nothing.
\<close>

lemma handleLogin_examples:
  "localStorage (handleLogin form (Response True (Some \<lparr>access_token = JStr ''eyJhbGci'',
       doctor_name = JStr ''Dr. Ada'', doctor_id = JNum 42, detail = JUndefined\<rparr>)) fresh_page) =
     [''token'' \<mapsto> ''eyJhbGci'', ''doctorName'' \<mapsto> ''Dr. Ada'', ''doctorId'' \<mapsto> ''42'']
   \<and> localStorage (handleLogin form (Response False (Some \<lparr>access_token = JUndefined,
       doctor_name = JUndefined, doctor_id = JUndefined,
       detail = JStr ''Invalid email or password''\<rparr>)) fresh_page) = Map.empty
   \<and> alerts (handleLogin form (Response False (Some \<lparr>access_token = JUndefined,
       doctor_name = JUndefined, doctor_id = JUndefined,
       detail = JStr ''Invalid email or password''\<rparr>)) fresh_page) =
     [(''Invalid email or password'', ''error'')]"
  by (simp add: handleLogin_def Let_def effect_defs js_or_def fresh_page_def decimal_42)

subsection \<open>Records browser\<close>


text \<open>
  The example of the specification: with the rows of Jane Doe and John Smith and the
  query \<^verbatim>\<open>jane\<close>, the first row stays visible and the second is hidden.
\<close>

lemma search_jane:
  "recordsTable (search_input name_text (map Latin1 ''jane'') records_page) =
     Some [record_row jane, (record_row john)\<lparr>display := ''none''\<rparr>]"
  using jane_matches john_does_not_match
  by (simp add: search_input_def records_page_def Let_def record_row_def jane_def john_def)



text \<open>
  C7. On a page that has the records table: an empty list of records renders exactly
  one row, the empty-state row with its message, and a non-empty list renders exactly
  one row per record, each with the record's cells and its severity class. Neither
  raises a notification or an error, also when the list arrives through
  \<^verbatim>\<open>loadAllRecords\<close>.
\<close>

theorem displayRecords_row_count:
  assumes "recordsTable st = Some old"
  shows "\<exists>rows. recordsTable (displayRecords recs st) = Some rows
           \<and> (if recs = []
               then length rows = 1 \<and>
                    map innerHTML rows =
                      [EmptyState ''No records found'' ''Start analyzing X-rays to see records here'']
               else length rows = length recs \<and>
                    map innerHTML rows = map (\<lambda>r. RecordCells r (severityClass (severity r))) recs)
           \<and> alerts (displayRecords recs st) = alerts st
           \<and> console_errors (displayRecords recs st) = console_errors st
           \<and> recordsTable (loadAllRecords (Response True (Some recs)) st) = Some rows
           \<and> alerts (loadAllRecords (Response True (Some recs)) st) = alerts st
           \<and> console_errors (loadAllRecords (Response True (Some recs)) st) = console_errors st"
proof -
  let ?rows = "if recs = [] then [empty_state_row] else map record_row recs"
  have d: "displayRecords recs st = st\<lparr>recordsTable := Some ?rows\<rparr>"
    by (rule displayRecords_rows [OF assms])
  have l: "loadAllRecords (Response True (Some recs)) st =
             displayRecords recs (fetch \<lparr>url = API_URL @ ''/api/records'', http_method = ''GET'',
                   headers = getAuthHeaders st, body = NoBody\<rparr> st)"
    by (simp add: loadAllRecords_def Let_def)
  have l': "recordsTable (loadAllRecords (Response True (Some recs)) st) = Some ?rows
            \<and> alerts (loadAllRecords (Response True (Some recs)) st) = alerts st
            \<and> console_errors (loadAllRecords (Response True (Some recs)) st) = console_errors st"
    using assms by (simp add: l displayRecords_def foldl_snoc_map fetch_def)
  have c: "if recs = []
           then length ?rows = 1 \<and> map innerHTML ?rows =
                  [EmptyState ''No records found'' ''Start analyzing X-rays to see records here'']
           else length ?rows = length recs \<and>
                map innerHTML ?rows = map (\<lambda>r. RecordCells r (severityClass (severity r))) recs"
    by (simp add: empty_state_row_def record_row_def comp_def)
  show ?thesis
    apply (rule exI [of _ ?rows])
    using d l' c by simp
qed

theorem displayRecords_row_count_witness:
  "recordsTable records_page = Some [record_row jane, record_row john]
   \<and> (\<exists>rows. recordsTable (displayRecords [] records_page) = Some rows
         \<and> length rows = 1
         \<and> map innerHTML rows =
             [EmptyState ''No records found'' ''Start analyzing X-rays to see records here'']
         \<and> alerts (displayRecords [] records_page) = [])
   \<and> (\<exists>rows. recordsTable (displayRecords [john, jane, john] records_page) = Some rows
         \<and> length rows = 3)"
proof -
  have t: "recordsTable records_page = Some [record_row jane, record_row john]"
    by (simp add: records_page_def)
  have a: "alerts records_page = []"
    by (simp add: records_page_def fresh_page_def)
  from displayRecords_row_count [OF t, of "[]"]
  obtain rows where
    "recordsTable (displayRecords [] records_page) = Some rows"
    "length rows = 1"
    "map innerHTML rows =
       [EmptyState ''No records found'' ''Start analyzing X-rays to see records here'']"
    "alerts (displayRecords [] records_page) = alerts records_page"
    by auto
  then have e: "\<exists>rows. recordsTable (displayRecords [] records_page) = Some rows
         \<and> length rows = 1
         \<and> map innerHTML rows =
             [EmptyState ''No records found'' ''Start analyzing X-rays to see records here'']
         \<and> alerts (displayRecords [] records_page) = []"
    using a by auto
  have m: "\<exists>rows. recordsTable (displayRecords [john, jane, john] records_page) = Some rows
         \<and> length rows = 3"
    using displayRecords_row_count [OF t, of "[john, jane, john]"] by auto
  from t e m show ?thesis by blast
qed

subsection \<open>Theme controller\<close>

text \<open>
  C8. On every page whose persisted preference is \<^verbatim>\<open>light\<close> or \<^verbatim>\<open>dark\<close>, once
  \<^verbatim>\<open>initTheme\<close> has run: toggling the theme twice gives back the same page, so the
  persisted preference and the attribute of the document root have their original
  values; one toggle changes the persisted preference.
\<close>

theorem toggleTheme_involution:
  assumes "getItem ''theme'' st = Some t" and "t = ''light'' \<or> t = ''dark''"
  shows "toggleTheme (toggleTheme (initTheme st)) = initTheme st
         \<and> getItem ''theme'' (toggleTheme (toggleTheme (initTheme st))) = getItem ''theme'' st
         \<and> data_theme (toggleTheme (toggleTheme (initTheme st))) = data_theme (initTheme st)
         \<and> getItem ''theme'' (toggleTheme (initTheme st)) \<noteq> getItem ''theme'' st"
proof -
  from assms have ne: "t \<noteq> []" by auto
  have dt: "data_theme (initTheme st) = Some t" and ls: "localStorage (initTheme st) = localStorage st"
    using initTheme_persisted [OF assms(1) ne] by simp_all
  have ls': "localStorage (initTheme st) ''theme'' = Some t"
    using assms(1) ls by (simp add: getItem_def)
  have twice: "toggleTheme (toggleTheme (initTheme st)) = initTheme st"
    by (rule toggleTheme_twice [OF dt ls' assms(2)])
  have flip: "getItem ''theme'' (toggleTheme (initTheme st)) \<noteq> getItem ''theme'' st"
    using assms dt by (auto simp: toggleTheme_def setItem_def getItem_def Let_def)
  show ?thesis using twice flip ls by (simp add: getItem_def)
qed

theorem toggleTheme_involution_witness:
  "getItem ''theme'' dark_page = Some ''dark''
   \<and> toggleTheme (toggleTheme (initTheme dark_page)) = initTheme dark_page
   \<and> data_theme (toggleTheme (initTheme dark_page)) = Some ''light''
   \<and> getItem ''theme'' (toggleTheme (toggleTheme (initTheme dark_page))) = Some ''dark''"
proof -
  have g: "getItem ''theme'' dark_page = Some ''dark''"
    by (simp add: getItem_def setItem_def dark_page_def)
  have d: "''dark'' = ''light'' \<or> ''dark'' = ''dark''"
    by simp
  note th = toggleTheme_involution [OF g d]
  have i1: "toggleTheme (toggleTheme (initTheme dark_page)) = initTheme dark_page"
    using th by (rule conjunct1)
  have "getItem ''theme'' (toggleTheme (toggleTheme (initTheme dark_page))) = getItem ''theme'' dark_page"
    using th by blast
  then have i2: "getItem ''theme'' (toggleTheme (toggleTheme (initTheme dark_page))) = Some ''dark''"
    using g by (rule trans)
  note i = conjI [OF i1 i2]
  have l: "data_theme (toggleTheme (initTheme dark_page)) = Some ''light''"
    by (simp add: toggleTheme_def initTheme_def setItem_def getItem_def str_or_def Let_def
        dark_page_def)
  from g i l show ?thesis by blast
qed

subsection \<open>Report export\<close>

text \<open>
  C9. For every analysis id \<open>n\<close> (an integer that JavaScript holds exactly, up to
  9007199254740991), \<^verbatim>\<open>downloadReport(n)\<close> issues exactly one request, to the path
  \<^verbatim>\<open>/api/download/report/\<close> followed by the decimal numeral of \<open>n\<close>, with one header:
  Authorization, the word Bearer and the token stored under \<^verbatim>\<open>token\<close> (the text
  \<^verbatim>\<open>null\<close> when none is stored). On a successful response it offers the blob under
  the name \<^verbatim>\<open>medical_report_\<close>, the numeral, \<^verbatim>\<open>.pdf\<close>. On a response that is not
  ok, on a network error and on a body that cannot be read it offers no file and shows
  the error notification; in every case the one request is all it sends.
\<close>

theorem downloadReport_outcomes:
  assumes "n \<le> 9007199254740991"
  shows "\<exists>s. decimal_numeral s n
           \<and> requests (downloadReport (JNum n) res st) =
               requests st @ [\<lparr>url = ''http://localhost:8000/api/download/report/'' @ s,
                               http_method = ''GET'',
                               headers = [(''Authorization'', ''Bearer '' @
                                  (case localStorage st ''token'' of None \<Rightarrow> ''null'' | Some t \<Rightarrow> t))],
                               body = NoBody\<rparr>]
           \<and> downloads (downloadReport (JNum n) (Response True (Some blob)) st) =
               downloads st @ [(''medical_report_'' @ s @ ''.pdf'', blob)]
           \<and> alerts (downloadReport (JNum n) (Response True (Some blob)) st) =
               alerts st @ [(''Report downloaded successfully!'', ''success'')]
           \<and> downloads (downloadReport (JNum n) (Response False b) st) = downloads st
           \<and> alerts (downloadReport (JNum n) (Response False b) st) =
               alerts st @ [(''Failed to download report'', ''error'')]
           \<and> downloads (downloadReport (JNum n) NetworkError st) = downloads st
           \<and> alerts (downloadReport (JNum n) NetworkError st) =
               alerts st @ [(''Failed to download report'', ''error'')]
           \<and> downloads (downloadReport (JNum n) (Response True None) st) = downloads st
           \<and> alerts (downloadReport (JNum n) (Response True None) st) =
               alerts st @ [(''Failed to download report'', ''error'')]"
proof -
  have q: "requests (downloadReport (JNum n) res st) =
               requests st @ [\<lparr>url = ''http://localhost:8000/api/download/report/'' @ decimal n,
                               http_method = ''GET'',
                               headers = [(''Authorization'', ''Bearer '' @
                                  (case localStorage st ''token'' of None \<Rightarrow> ''null'' | Some t \<Rightarrow> t))],
                               body = NoBody\<rparr>]"
    by (simp add: downloadReport_def Let_def effect_defs bearer_def getItem_def API_URL_def
        split: fetch_result.splits option.splits)
  have ok: "downloads (downloadReport (JNum n) (Response True (Some blob)) st) =
               downloads st @ [(''medical_report_'' @ decimal n @ ''.pdf'', blob)]
           \<and> alerts (downloadReport (JNum n) (Response True (Some blob)) st) =
               alerts st @ [(''Report downloaded successfully!'', ''success'')]"
    by (simp add: downloadReport_def Let_def effect_defs)
  have ko: "downloads (downloadReport (JNum n) (Response False b) st) = downloads st
           \<and> alerts (downloadReport (JNum n) (Response False b) st) =
               alerts st @ [(''Failed to download report'', ''error'')]
           \<and> downloads (downloadReport (JNum n) NetworkError st) = downloads st
           \<and> alerts (downloadReport (JNum n) NetworkError st) =
               alerts st @ [(''Failed to download report'', ''error'')]
           \<and> downloads (downloadReport (JNum n) (Response True None) st) = downloads st
           \<and> alerts (downloadReport (JNum n) (Response True None) st) =
               alerts st @ [(''Failed to download report'', ''error'')]"
    by (simp add: downloadReport_def Let_def effect_defs)
  from decimal_is_numeral [of n] q ok ko show ?thesis
    by (intro exI [of _ "decimal n"]) simp
qed

theorem downloadReport_outcomes_witness:
  "(42::nat) \<le> 9007199254740991
   \<and> (\<exists>s. decimal_numeral s 42 \<and> s = ''42''
         \<and> requests (downloadReport (JNum 42) (Response True (Some ''%PDF-1.4'')) token_page) =
             [\<lparr>url = ''http://localhost:8000/api/download/report/'' @ s, http_method = ''GET'',
               headers = [(''Authorization'', ''Bearer tok123'')], body = NoBody\<rparr>]
         \<and> downloads (downloadReport (JNum 42) (Response True (Some ''%PDF-1.4'')) token_page) =
             [(''medical_report_'' @ s @ ''.pdf'', ''%PDF-1.4'')])"
proof -
  have b: "(42::nat) \<le> 9007199254740991" by simp
  have tk: "localStorage token_page ''token'' = Some ''tok123''"
    and rq: "requests token_page = []" and dl: "downloads token_page = []"
    by (simp_all add: token_page_def setItem_def fresh_page_def)
  from downloadReport_outcomes [OF b, of "Response True (Some ''%PDF-1.4'')" token_page "''%PDF-1.4''"]
  obtain s where d: "decimal_numeral s 42"
    and r: "requests (downloadReport (JNum 42) (Response True (Some ''%PDF-1.4'')) token_page) =
             [\<lparr>url = ''http://localhost:8000/api/download/report/'' @ s, http_method = ''GET'',
               headers = [(''Authorization'', ''Bearer tok123'')], body = NoBody\<rparr>]"
    and f: "downloads (downloadReport (JNum 42) (Response True (Some ''%PDF-1.4'')) token_page) =
             [(''medical_report_'' @ s @ ''.pdf'', ''%PDF-1.4'')]"
    by (auto simp: tk rq dl)
  have "requests (downloadReport (JNum 42) (Response True (Some ''%PDF-1.4'')) token_page) =
             [\<lparr>url = ''http://localhost:8000/api/download/report/'' @ ''42'', http_method = ''GET'',
               headers = [(''Authorization'', ''Bearer tok123'')], body = NoBody\<rparr>]"
    by (simp add: downloadReport_def Let_def effect_defs bearer_def getItem_def API_URL_def
        tk rq decimal_42)
  with r have e: "s = ''42''" by simp
  from b d e r f show ?thesis by blast
qed


subsection \<open>Logout\<close>

text \<open>
  C10. Logout removes the keys token, doctorName and doctorId from the persisted state
  and leaves every other key as it was. The theme preference in particular survives
  a logout followed by a login attempt, whatever its outcome, and the next page load
  initialises the same theme.
\<close>

theorem handleLogout_frame:
  "localStorage (handleLogout st) =
     (\<lambda>k. if k \<in> {''token'', ''doctorName'', ''doctorId''} then None else localStorage st k)
   \<and> getItem ''theme'' (handleLogout st) = getItem ''theme'' st
   \<and> getItem ''theme'' (handleLogin form res (handleLogout st)) = getItem ''theme'' st
   \<and> data_theme (initTheme (handleLogin form res (handleLogout st))) = data_theme (initTheme st)"
proof -
  have a: "localStorage (handleLogout st) =
     (\<lambda>k. if k \<in> {''token'', ''doctorName'', ''doctorId''} then None else localStorage st k)"
    by (auto simp: handleLogout_def removeItem_def fun_eq_iff)
  have b: "getItem ''theme'' (handleLogout st) = getItem ''theme'' st"
    by (simp add: a getItem_def)
  have c: "getItem ''theme'' (handleLogin form res (handleLogout st)) = getItem ''theme'' st"
    using b by (simp add: getItem_def handleLogin_other_keys)
  have d: "data_theme (initTheme (handleLogin form res (handleLogout st))) = data_theme (initTheme st)"
    using c by (simp add: initTheme_def Let_def)
  show ?thesis using a b c d by blast
qed

end
